theory Spec2Isabelle
  imports Main "HOL-Library.Word"
begin

section \<open>libbpftune.c: data model\<close>

text \<open>
  A shallow embedding of \<^verbatim>\<open>src/libbpftune.c\<close>. Every C function that a claim is about
  is a HOL function of the same name; the process globals, the kernel state the file
  talks to (network namespaces, descriptors, \<^verbatim>\<open>/proc/sys\<close> files, loadable objects) and
  the log are fields of one record that the functions pass along. A null-pointer call
  or an out-of-bounds store is the \<open>Inl\<close> branch of a sum.

  The header \<^verbatim>\<open>libbpftune.h\<close> is not part of the sources. Its structs are records with the
  fields this file uses, its enums datatypes with the members the file names and one
  more where the file tests for inequality; its constants \<^verbatim>\<open>BPFTUNE_MAX_TUNERS\<close> and
  \<^verbatim>\<open>sizeof(struct bpftune_event)\<close> are parameters of the functions that use them.

  Integers: \<^verbatim>\<open>long\<close> values, \<^verbatim>\<open>int\<close> results, descriptors and error numbers are \<open>int\<close>
  (the file only stores, compares and negates them); counts and indices are \<open>nat\<close>;
  the \<^verbatim>\<open>unsigned long\<close> cookies and counters are 64-bit words and the event's
  \<^verbatim>\<open>unsigned int\<close> ids 32-bit words.
\<close>

type_synonym cookie = "64 word"

datatype loglevel = LOG_ERR | LOG_INFO | LOG_DEBUG

text \<open>What a sysctl file holds, as \<^verbatim>\<open>fscanf("%ld")\<close> sees it: numbers and other tokens.\<close>

datatype tok = Num int | Junk

text \<open>
  An entry of \<^verbatim>\<open>/proc/sys\<close>. What the entry holds after a write is decided by the
  kernel's handler for it, which is no part of this file: \<open>f_store f old printed\<close> is
  what the entry holds once a stream that printed the tokens \<open>printed\<close> to it is closed,
  when it held \<open>old\<close> before. It is a parameter of the entry: a handler may keep the
  values a shorter write does not reach, or refuse values and keep the old ones.
\<close>

record sysctl_file =
  f_readable :: bool
  f_writable :: bool
  f_content :: "tok list"
  f_store :: "tok list \<Rightarrow> tok list \<Rightarrow> tok list"

datatype bpftunable_type = BPFTUNABLE_SYSCTL | BPFTUNABLE_OTHER

record bpftunable_desc =
  desc_type :: bpftunable_type
  desc_name :: string
  desc_namespaced :: bool
  desc_num_values :: nat

record bpftunable_scenario =
  scn_name :: string
  scn_description :: string

text \<open>
  \<^verbatim>\<open>struct bpftunable\<close>: the value arrays are lists, the two counter arrays of
  \<^verbatim>\<open>struct bpftunable_stats\<close> are functions from the scenario index to an
  \<^verbatim>\<open>unsigned long\<close>.
\<close>

record bpftunable =
  desc :: bpftunable_desc
  initial_values :: "int list"
  current_values :: "int list"
  stats_global_ns :: "nat \<Rightarrow> 64 word"
  stats_nonglobal_ns :: "nat \<Rightarrow> 64 word"

datatype bpftune_state = BPFTUNE_INACTIVE | BPFTUNE_ACTIVE

record bpftune_event =
  ev_tuner_id :: "32 word"
  ev_scenario_id :: "32 word"
  ev_netns_cookie :: cookie

text \<open>
  \<^verbatim>\<open>struct bpftuner\<close>. The three function pointers are kept as "is not NULL" flags (the
  code they point to lives in the loaded object); \<open>tunables\<close> and \<open>scenarios\<close> are the
  arrays with their counts \<^verbatim>\<open>num_tunables\<close>, \<^verbatim>\<open>num_scenarios\<close> as lengths; the embedded
  list head \<^verbatim>\<open>netns\<close> is \<open>netns_cookie\<close> and the nodes linked behind it are
  \<open>netns_next\<close>, in list order.
\<close>

record bpftuner =
  tuner_handle :: string
  tuner_name :: string
  tuner_id :: nat
  tuner_state :: bpftune_state
  tuner_init :: bool
  tuner_fini :: bool
  tuner_event_handler :: bool
  tuner_ring_buffer_map_fd :: int
  tunables :: "bpftunable list"
  scenarios :: "bpftunable_scenario list"
  netns_cookie :: cookie
  netns_next :: "cookie list"

text \<open>
  A loadable tuner object as \<^verbatim>\<open>dlopen\<close>/\<^verbatim>\<open>dlsym\<close> see it: \<open>so_init\<close> is the symbol
  \<^verbatim>\<open>init\<close> (absent, or the module's code as a function of the tuner it is handed), the
  other two symbols are present or not.
\<close>

record shared_object =
  so_init :: "(bpftuner \<Rightarrow> int \<times> bpftuner) option"
  so_fini :: bool
  so_event_handler :: bool

datatype logmsg =
    Could_not_get_current_netns_fd int int
  | Could_not_setns bool int int
  | Could_not_open_for_reading string int int
  | Could_not_read_from string int
  | Read_value string nat int
  | Writing_sysctl string int
  | Could_not_open_for_writing string int
  | Wrote_value string nat int
  | No_tunable nat string
  | Summary string "64 word" string bool string
  | Sysctl_changed string "int list" "int list"
  | Scenario_occurred string string bool string
  | Narrative "string option"
  | Updated_stat string nat "64 word"
  | Could_not_allocate_tuner
  | Could_not_dlopen string
  | Calling_init string
  | Error_initializing string int
  | Successfully_initialized string nat
  | Cleaning_up string nat nat
  | Checking_scenarios nat nat
  | Unexpected_size_event nat
  | Invalid_tuner_id "32 word"
  | No_tuner_for_id "32 word"
  | Event_scenario "32 word" string nat cookie bool
  | No_tuner_netns_found nat cookie
  | Unable_to_allocate_netns
  | Netns_fini_not_found cookie

text \<open>What the process does that an observer sees: log calls and calls into a module.\<close>

datatype trace_event =
    Log loglevel logmsg
  | Called_init string
  | Called_fini nat bpftune_state
  | Called_event_handler nat bpftune_event

datatype crash = Null_call | Null_deref | Out_of_bounds

text \<open>
  The state the file works on. Kernel side: \<open>cur_ns\<close> is the network namespace of the
  calling thread, \<open>fd_tab\<close> the descriptor table (the descriptor number is the index;
  \<open>Some ns\<close> is an open descriptor of namespace \<open>ns\<close>, \<open>None\<close> a number that is closed
  or is no namespace descriptor; a new descriptor takes the next number, closed numbers
  are not handed out again), \<open>files\<close> the sysctl files of each namespace by path,
  \<open>open_self_ok\<close> and \<open>setns_ok\<close> say whether \<^verbatim>\<open>open("/proc/self/ns/net")\<close> and
  \<^verbatim>\<open>setns\<close> into a namespace succeed, \<open>libs\<close> is what \<^verbatim>\<open>dlopen\<close> finds, \<open>calloc_ok\<close>
  whether allocation succeeds. \<open>fopen_w_calls\<close>, \<open>live_allocs\<close> and \<open>open_handles\<close> count
  \<^verbatim>\<open>fopen(path, "w")\<close> calls, allocations not yet freed and \<^verbatim>\<open>dlopen\<close> handles not yet
  closed. Process side: the file's globals and the log.
\<close>

record globals =
  cur_ns :: nat
  fd_tab :: "nat option list"
  open_self_ok :: bool
  setns_ok :: "nat \<Rightarrow> bool"
  files :: "nat \<Rightarrow> string \<Rightarrow> sysctl_file option"
  errno :: int
  fopen_w_calls :: nat
  libs :: "string \<Rightarrow> shared_object option"
  calloc_ok :: bool
  live_allocs :: nat
  open_handles :: nat
  ring_buffer_map_fd :: int
  bpftune_tuners :: "bpftuner list"
  netns_cookie_supported :: bool
  global_netns_cookie :: cookie
  logged :: "trace_event list"

definition EPERM :: int where "EPERM = 1"
definition ENOENT :: int where "ENOENT = 2"
definition EBADF :: int where "EBADF = 9"
definition EACCES :: int where "EACCES = 13"
definition EINVAL :: int where "EINVAL = 22"
definition EMFILE :: int where "EMFILE = 24"

text \<open>\<^verbatim>\<open>bpftune_log(level, fmt, ...)\<close>: the call is appended to the log.\<close>

definition bpftune_log :: "loglevel \<Rightarrow> logmsg \<Rightarrow> globals \<Rightarrow> globals" where
  "bpftune_log level msg s = s\<lparr>logged := logged s @ [Log level msg]\<rparr>"

section \<open>The system calls the file uses\<close>

definition fd_ns :: "globals \<Rightarrow> int \<Rightarrow> nat option" where
  "fd_ns s fd = (if 0 \<le> fd \<and> nat fd < length (fd_tab s) then fd_tab s ! nat fd else None)"

text \<open>\<^verbatim>\<open>open("/proc/self/ns/net", O_RDONLY | O_CLOEXEC)\<close>: a new descriptor of the current namespace.\<close>

definition sys_open_self_ns :: "globals \<Rightarrow> int \<times> globals" where
  "sys_open_self_ns s =
     (if open_self_ok s
      then (int (length (fd_tab s)), s\<lparr>fd_tab := fd_tab s @ [Some (cur_ns s)]\<rparr>)
      else (-1, s\<lparr>errno := EMFILE\<rparr>))"

definition sys_close :: "int \<Rightarrow> globals \<Rightarrow> globals" where
  "sys_close fd s =
     (case fd_ns s fd of
        None \<Rightarrow> s\<lparr>errno := EBADF\<rparr>
      | Some _ \<Rightarrow> s\<lparr>fd_tab := (fd_tab s)[nat fd := None]\<rparr>)"

text \<open>\<^verbatim>\<open>setns(fd, CLONE_NEWNET)\<close>.\<close>

definition sys_setns :: "int \<Rightarrow> globals \<Rightarrow> int \<times> globals" where
  "sys_setns fd s =
     (case fd_ns s fd of
        None \<Rightarrow> (-1, s\<lparr>errno := EBADF\<rparr>)
      | Some ns \<Rightarrow> if setns_ok s ns then (0, s\<lparr>cur_ns := ns\<rparr>) else (-1, s\<lparr>errno := EPERM\<rparr>))"

text \<open>\<^verbatim>\<open>fopen(path, "r")\<close> in the current namespace: the stream's tokens, or NULL.\<close>

definition fopen_r :: "string \<Rightarrow> globals \<Rightarrow> tok list option \<times> globals" where
  "fopen_r path s =
     (case files s (cur_ns s) path of
        None \<Rightarrow> (None, s\<lparr>errno := ENOENT\<rparr>)
      | Some f \<Rightarrow> if f_readable f then (Some (f_content f), s) else (None, s\<lparr>errno := EACCES\<rparr>))"

text \<open>
  \<^verbatim>\<open>fopen(path, "w")\<close> in the current namespace: every call is counted, and the call
  says whether the stream was opened. The stream is what has been printed to it and not
  yet handed to the kernel; it starts empty.
\<close>

definition fopen_w :: "string \<Rightarrow> globals \<Rightarrow> bool \<times> globals" where
  "fopen_w path s =
     (let s1 = s\<lparr>fopen_w_calls := Suc (fopen_w_calls s)\<rparr> in
      case files s1 (cur_ns s1) path of
        None \<Rightarrow> (False, s1\<lparr>errno := ENOENT\<rparr>)
      | Some f \<Rightarrow> if f_writable f then (True, s1) else (False, s1\<lparr>errno := EACCES\<rparr>))"

text \<open>\<^verbatim>\<open>fprintf(fp, "%ld ", v)\<close>: the number goes behind what the stream holds.\<close>

definition fprintf_ld :: "int \<Rightarrow> tok list \<Rightarrow> tok list" where
  "fprintf_ld v stream = stream @ [Num v]"

text \<open>
  \<^verbatim>\<open>fclose(fp)\<close> of the stream opened for writing \<open>path\<close>: what was printed reaches the
  kernel, and the entry then holds what its handler makes of it. The file never looks
  at the result of \<^verbatim>\<open>fprintf\<close> or \<^verbatim>\<open>fclose\<close>.
\<close>

definition fclose_w :: "string \<Rightarrow> tok list \<Rightarrow> globals \<Rightarrow> globals" where
  "fclose_w path stream s =
     (case files s (cur_ns s) path of
        None \<Rightarrow> s
      | Some f \<Rightarrow>
          s\<lparr>files := (files s)(cur_ns s := (files s (cur_ns s))
                 (path \<mapsto> f\<lparr>f_content := f_store f (f_content f) stream\<rparr>))\<rparr>)"

text \<open>
  \<^verbatim>\<open>fscanf(fp, "%ld %ld %ld", ...)\<close>: the values converted (at most three, stopping at
  the first token that is no number) and the return value, their count or \<^verbatim>\<open>EOF\<close> when
  the input ends before the first conversion.
\<close>

fun scan_longs :: "nat \<Rightarrow> tok list \<Rightarrow> int list" where
  "scan_longs 0 ts = []"
| "scan_longs (Suc k) [] = []"
| "scan_longs (Suc k) (Junk # ts) = []"
| "scan_longs (Suc k) (Num v # ts) = v # scan_longs k ts"

definition fscanf_3ld :: "tok list \<Rightarrow> int \<times> int list" where
  "fscanf_3ld ts = (if ts = [] then (-1, []) else (int (length (scan_longs 3 ts)), scan_longs 3 ts))"

section \<open>Sysctl transaction layer\<close>

definition BPFTUNE_PROC_SYS :: string where
  "BPFTUNE_PROC_SYS = ''/proc/sys/''"

definition bpftune_sysctl_name_to_path :: "string \<Rightarrow> nat \<Rightarrow> string" where
  "bpftune_sysctl_name_to_path name path_sz =
     map (\<lambda>c. if c = CHR ''.'' then CHR ''/'' else c) (take (path_sz - 1) (BPFTUNE_PROC_SYS @ name))"

text \<open>
  \<^verbatim>\<open>bpftune_netns_set(new_fd, orig_fd)\<close>. \<open>want_orig\<close> says that \<^verbatim>\<open>orig_fd\<close> is not NULL; the
  result is the return value, what \<^verbatim>\<open>*orig_fd\<close> holds afterwards, and the new state.
\<close>

definition bpftune_netns_set :: "int \<Rightarrow> bool \<Rightarrow> globals \<Rightarrow> int \<times> int \<times> globals" where
  "bpftune_netns_set new_fd want_orig s =
     (if new_fd = 0 then (0, 0, s)
      else
        case sys_open_self_ns s of (fd, s1) \<Rightarrow>
          if fd < 0 then
            (let err = - errno s1;
                 s2 = bpftune_log LOG_ERR (Could_not_get_current_netns_fd fd err) s1
             in (err, 0, sys_close fd s2))
          else
            case sys_setns new_fd s1 of (r, s2) \<Rightarrow>
              if r < 0 then
                (let err = - errno s2;
                     s3 = sys_close fd s2;
                     s4 = bpftune_log LOG_ERR (Could_not_setns (\<not> want_orig) new_fd err) s3
                 in (err, 0, sys_close fd s4))
              else if want_orig then (0, fd, s2)
              else (0, 0, sys_close fd s2))"

fun log_read_values :: "string \<Rightarrow> nat \<Rightarrow> int list \<Rightarrow> globals \<Rightarrow> globals" where
  "log_read_values name i [] s = s"
| "log_read_values name i (v # vs) s =
     log_read_values name (Suc i) vs (bpftune_log LOG_DEBUG (Read_value name i v) s)"

text \<open>
  \<^verbatim>\<open>bpftune_sysctl_read(netns_fd, name, values)\<close>: the return value, the entries of
  \<^verbatim>\<open>values\<close> that were filled, and the new state. The function returns \<^verbatim>\<open>num_values\<close> on
  every path behind the namespace switch.
\<close>

definition bpftune_sysctl_read :: "int \<Rightarrow> string \<Rightarrow> globals \<Rightarrow> int \<times> int list \<times> globals" where
  "bpftune_sysctl_read netns_fd name s =
     (let path = bpftune_sysctl_name_to_path name 512 in
      case bpftune_netns_set netns_fd True s of (err, orig_netns_fd, s1) \<Rightarrow>
        if err < 0 then (err, [], s1)
        else
          case fopen_r path s1 of
            (None, s2) \<Rightarrow>
              (let err = - errno s2;
                   s3 = bpftune_log LOG_ERR (Could_not_open_for_reading path netns_fd err) s2
               in (0, [], snd (snd (bpftune_netns_set orig_netns_fd False s3))))
          | (Some ts, s2) \<Rightarrow>
              (let num_values = fst (fscanf_3ld ts);
                   vals = snd (fscanf_3ld ts);
                   err = (if num_values = 0 then - ENOENT
                          else if num_values < 0 then - errno s2 else 0);
                   s3 = (if err \<noteq> 0 then bpftune_log LOG_ERR (Could_not_read_from path err) s2
                         else log_read_values name 0 vals s2)
               in (num_values, vals, snd (snd (bpftune_netns_set orig_netns_fd False s3)))))"

text \<open>The comparison loop of \<^verbatim>\<open>bpftune_sysctl_write\<close>: the index at which it stops.\<close>

function first_difference :: "nat \<Rightarrow> nat \<Rightarrow> int list \<Rightarrow> int list \<Rightarrow> nat" where
  "first_difference i num_values old_values vals =
     (if i < num_values
      then (if old_values ! i \<noteq> vals ! i then i
            else first_difference (Suc i) num_values old_values vals)
      else i)"
  by pat_completeness auto
termination
  by (relation "measure (\<lambda>(i, num_values, old_values, vals). num_values - i)") auto

declare first_difference.simps [simp del]

function fprintf_values :: "nat \<Rightarrow> nat \<Rightarrow> int list \<Rightarrow> tok list \<Rightarrow> tok list" where
  "fprintf_values i num_values vals stream =
     (if i < num_values
      then fprintf_values (Suc i) num_values vals (fprintf_ld (vals ! i) stream)
      else stream)"
  by pat_completeness auto
termination
  by (relation "measure (\<lambda>(i, num_values, vals, stream). num_values - i)") auto

declare fprintf_values.simps [simp del]

function log_wrote_values :: "string \<Rightarrow> nat \<Rightarrow> nat \<Rightarrow> int list \<Rightarrow> globals \<Rightarrow> globals" where
  "log_wrote_values name i num_values vals s =
     (if i < num_values
      then log_wrote_values name (Suc i) num_values vals
             (bpftune_log LOG_DEBUG (Wrote_value name i (vals ! i)) s)
      else s)"
  by pat_completeness auto
termination
  by (relation "measure (\<lambda>(name, i, num_values, vals, s). num_values - i)") auto

declare log_wrote_values.simps [simp del]

text \<open>
  \<^verbatim>\<open>bpftune_sysctl_write(netns_fd, name, num_values, values)\<close>: the return value and the
  new state. The caller passes at least \<open>num_values\<close> entries in \<open>vals\<close>. When the values
  read back are the requested ones the function returns at once; every other path
  behind the switch goes through the label \<^verbatim>\<open>out\<close>, which restores the namespace and
  returns 0.
\<close>

definition bpftune_sysctl_write :: "int \<Rightarrow> string \<Rightarrow> nat \<Rightarrow> int list \<Rightarrow> globals \<Rightarrow> int \<times> globals" where
  "bpftune_sysctl_write netns_fd name num_values vals s =
     (let path = bpftune_sysctl_name_to_path name 512;
          s0 = bpftune_log LOG_DEBUG (Writing_sysctl path netns_fd) s
      in
      case bpftune_netns_set netns_fd True s0 of (err, orig_netns_fd, s1) \<Rightarrow>
        if err < 0 then (err, s1)
        else
          case bpftune_sysctl_read 0 name s1 of (old_num_values, old_values, s2) \<Rightarrow>
            if old_num_values < 0
            then (0, snd (snd (bpftune_netns_set orig_netns_fd False s2)))
            else if int num_values = old_num_values \<and>
                    first_difference 0 num_values old_values vals = num_values
            then (0, s2)
            else
              case fopen_w path s2 of
                (False, s3) \<Rightarrow>
                  (let err = - errno s3;
                       s4 = bpftune_log LOG_DEBUG (Could_not_open_for_writing path err) s3
                   in (0, snd (snd (bpftune_netns_set orig_netns_fd False s4))))
              | (True, s3) \<Rightarrow>
                  (let stream = fprintf_values 0 num_values vals [];
                       s4 = fclose_w path stream s3;
                       s5 = log_wrote_values name 0 num_values vals s4
                   in (0, snd (snd (bpftune_netns_set orig_netns_fd False s5)))))"

section \<open>Notions used to state the properties of the sysctl layer\<close>

text \<open>
  \<open>switch_target s fd\<close> is the namespace \<^verbatim>\<open>bpftune_netns_set(fd, ...)\<close> ends in when it
  succeeds from \<open>s\<close>; \<open>netns_of s fd\<close> is the same for a descriptor that is open in \<open>s\<close>;
  \<open>scan_at s ns path\<close> is what reading \<open>path\<close> in namespace \<open>ns\<close> returns;
  \<open>sysctl_entry s fd name\<close> is the entry a write of the sysctl \<open>name\<close> through \<open>fd\<close>
  reaches, when the namespace of \<open>fd\<close> can be entered and the entry exists there.
\<close>

definition switch_target :: "globals \<Rightarrow> int \<Rightarrow> nat option" where
  "switch_target s fd =
     (if fd = 0 then Some (cur_ns s)
      else if open_self_ok s
      then (case fd_ns (s\<lparr>fd_tab := fd_tab s @ [Some (cur_ns s)]\<rparr>) fd of
              None \<Rightarrow> None
            | Some ns \<Rightarrow> if setns_ok s ns then Some ns else None)
      else None)"

definition same_kernel :: "globals \<Rightarrow> globals \<Rightarrow> bool" where
  "same_kernel s t =
     (cur_ns s = cur_ns t \<and> fd_tab s = fd_tab t \<and> open_self_ok s = open_self_ok t \<and>
      setns_ok s = setns_ok t \<and> files s = files t \<and> fopen_w_calls s = fopen_w_calls t)"

definition scan_at :: "globals \<Rightarrow> nat \<Rightarrow> string \<Rightarrow> int \<times> int list" where
  "scan_at s ns path =
     (case files s ns path of
        None \<Rightarrow> (0, [])
      | Some f \<Rightarrow> if f_readable f then fscanf_3ld (f_content f) else (0, []))"




section \<open>Tunable store and scenario accounting\<close>

text \<open>
  A function that works on the tuner it is handed and on nothing else of the registry
  takes the tuner and returns it. A call through a NULL pointer, a NULL dereference and
  an access past the end of an array end the run: the result is \<open>Inl\<close> of the kind of
  crash and of the state reached.
\<close>

definition bpftuner_tunable :: "bpftuner \<Rightarrow> nat \<Rightarrow> bpftunable option" where
  "bpftuner_tunable tuner index =
     (if index < length (tunables tuner) then Some (tunables tuner ! index) else None)"

definition bpftuner_tunable_stats_update ::
    "bpftunable \<Rightarrow> nat \<Rightarrow> bool \<Rightarrow> globals \<Rightarrow> bpftunable \<times> globals" where
  "bpftuner_tunable_stats_update tunable scenario global_ns s =
     (let t = (if global_ns
               then tunable\<lparr>stats_global_ns :=
                      (stats_global_ns tunable)(scenario := stats_global_ns tunable scenario + 1)\<rparr>
               else tunable\<lparr>stats_nonglobal_ns :=
                      (stats_nonglobal_ns tunable)(scenario := stats_nonglobal_ns tunable scenario + 1)\<rparr>)
      in (t, bpftune_log LOG_DEBUG
               (Updated_stat (desc_name (desc t)) scenario
                  (if global_ns then stats_global_ns t scenario else stats_nonglobal_ns t scenario)) s))"

text \<open>
  \<^verbatim>\<open>bpftuner_scenario_log\<close>. \<open>fmt\<close> is the caller's narrative (\<open>None\<close> for the NULL that
  \<^verbatim>\<open>bpftuner_fini\<close> passes). The values printed for a sysctl tunable are the first
  \<^verbatim>\<open>desc.num_values\<close> entries of the two value arrays.
\<close>

definition bpftuner_scenario_log ::
    "bpftuner \<Rightarrow> nat \<Rightarrow> nat \<Rightarrow> int \<Rightarrow> bool \<Rightarrow> string option \<Rightarrow> globals \<Rightarrow>
     (crash \<times> globals) + (bpftuner \<times> globals)" where
  "bpftuner_scenario_log tuner tunable scenario netns_fd summary fmt s =
     (case bpftuner_tunable tuner tunable of
        None \<Rightarrow> Inl (Null_deref, s)
      | Some t \<Rightarrow>
          (let global_ns = (netns_fd = 0) in
           if summary then
             (let count = (if global_ns then stats_global_ns t scenario
                           else stats_nonglobal_ns t scenario)
              in if count = 0 then Inr (tuner, s)
                 else if \<not> scenario < length (scenarios tuner) then Inl (Out_of_bounds, s)
                 else
                   (let sc = scenarios tuner ! scenario;
                        s1 = bpftune_log LOG_INFO
                               (Summary (scn_name sc) count (desc_name (desc t)) global_ns
                                  (scn_description sc)) s
                    in if desc_type (desc t) = BPFTUNABLE_SYSCTL
                       then Inr (tuner, bpftune_log LOG_INFO
                                   (Sysctl_changed (desc_name (desc t))
                                      (map (\<lambda>i. initial_values t ! i) [0..<desc_num_values (desc t)])
                                      (map (\<lambda>i. current_values t ! i) [0..<desc_num_values (desc t)]))
                                   s1)
                       else Inr (tuner, s1)))
           else if \<not> scenario < length (scenarios tuner) then Inl (Out_of_bounds, s)
           else
             (let sc = scenarios tuner ! scenario;
                  s1 = bpftune_log LOG_INFO
                         (Scenario_occurred (scn_name sc) (desc_name (desc t)) global_ns
                            (scn_description sc)) s;
                  s2 = bpftune_log LOG_INFO (Narrative fmt) s1;
                  r = bpftuner_tunable_stats_update t scenario global_ns s2
              in Inr (tuner\<lparr>tunables := (tunables tuner)[tunable := fst r]\<rparr>, snd r))))"

text \<open>The copy loop of \<^verbatim>\<open>bpftuner_tunable_sysctl_write\<close>.\<close>

function copy_values :: "nat \<Rightarrow> nat \<Rightarrow> int list \<Rightarrow> int list \<Rightarrow> int list" where
  "copy_values i n vals current =
     (if i < n then copy_values (Suc i) n vals (current[i := vals ! i]) else current)"
  by pat_completeness auto
termination
  by (relation "measure (\<lambda>(i, n, vals, current). n - i)") auto

declare copy_values.simps [simp del]

text \<open>
  \<^verbatim>\<open>bpftuner_tunable_sysctl_write\<close>: the return value, the tuner and the state. The
  scenario is logged and \<^verbatim>\<open>current_values\<close> overwritten whenever
  \<^verbatim>\<open>bpftune_sysctl_write\<close> returns 0.
\<close>

definition bpftuner_tunable_sysctl_write ::
    "bpftuner \<Rightarrow> nat \<Rightarrow> nat \<Rightarrow> int \<Rightarrow> nat \<Rightarrow> int list \<Rightarrow> string option \<Rightarrow> globals \<Rightarrow>
     (crash \<times> globals) + (int \<times> bpftuner \<times> globals)" where
  "bpftuner_tunable_sysctl_write tuner tunable scenario netns_fd num_values vals fmt s =
     (case bpftuner_tunable tuner tunable of
        None \<Rightarrow> Inr (- EINVAL, tuner, bpftune_log LOG_ERR (No_tunable tunable (tuner_name tuner)) s)
      | Some t \<Rightarrow>
          (let fd = (if desc_namespaced (desc t) then netns_fd else 0);
               w = bpftune_sysctl_write fd (desc_name (desc t)) num_values vals s
           in if fst w = 0 then
                (case bpftuner_scenario_log tuner tunable scenario netns_fd False fmt (snd w) of
                   Inl c \<Rightarrow> Inl c
                 | Inr (tuner1, s1) \<Rightarrow>
                     (let t1 = tunables tuner1 ! tunable;
                          t2 = t1\<lparr>current_values :=
                                 copy_values 0 (desc_num_values (desc t1)) vals (current_values t1)\<rparr>
                      in Inr (fst w, tuner1\<lparr>tunables := (tunables tuner1)[tunable := t2]\<rparr>, s1)))
              else Inr (fst w, tuner, snd w)))"

text \<open>\<^verbatim>\<open>bpftuner_tunable_update\<close>.\<close>

definition bpftuner_tunable_update ::
    "bpftuner \<Rightarrow> nat \<Rightarrow> nat \<Rightarrow> int \<Rightarrow> string option \<Rightarrow> globals \<Rightarrow>
     (crash \<times> globals) + (int \<times> bpftuner \<times> globals)" where
  "bpftuner_tunable_update tuner tunable scenario netns_fd fmt s =
     (case bpftuner_tunable tuner tunable of
        None \<Rightarrow> Inr (- EINVAL, tuner, bpftune_log LOG_ERR (No_tunable tunable (tuner_name tuner)) s)
      | Some t \<Rightarrow>
          (case bpftuner_scenario_log tuner tunable scenario netns_fd False fmt s of
             Inl c \<Rightarrow> Inl c
           | Inr (tuner1, s1) \<Rightarrow> Inr (0, tuner1, s1)))"

section \<open>Tuner registry and event dispatcher\<close>

text \<open>
  The table \<^verbatim>\<open>bpftune_tuners[BPFTUNE_MAX_TUNERS]\<close> is kept as the list of its first
  \<^verbatim>\<open>bpftune_num_tuners\<close> slots, the only ones the file reads; a pointer to a registered
  tuner is its index in the table.
\<close>

definition bpftune_num_tuners :: "globals \<Rightarrow> nat" where
  "bpftune_num_tuners s = length (bpftune_tuners s)"

definition bpftune_tuner :: "globals \<Rightarrow> nat \<Rightarrow> bpftuner option" where
  "bpftune_tuner s index =
     (if index < bpftune_num_tuners s then Some (bpftune_tuners s ! index) else None)"

definition bpftune_tuner_num :: "globals \<Rightarrow> nat" where
  "bpftune_tuner_num s = bpftune_num_tuners s"

text \<open>What \<^verbatim>\<open>calloc(1, sizeof(*tuner))\<close> returns.\<close>

definition zeroed_tuner :: bpftuner where
  "zeroed_tuner =
     \<lparr>tuner_handle = [], tuner_name = [], tuner_id = 0, tuner_state = BPFTUNE_INACTIVE,
      tuner_init = False, tuner_fini = False, tuner_event_handler = False,
      tuner_ring_buffer_map_fd = 0, tunables = [], scenarios = [], netns_cookie = 0,
      netns_next = []\<rparr>"

text \<open>
  \<^verbatim>\<open>bpftuner_init(path)\<close>, with \<^verbatim>\<open>BPFTUNE_MAX_TUNERS\<close> as \<open>max_tuners\<close>. The result is the
  pointer returned (\<open>None\<close> for NULL) and the state. The symbols are not checked before
  \<^verbatim>\<open>tuner->init(tuner)\<close> is called, and the store into the table is not checked against
  its size.
\<close>

definition bpftuner_init ::
    "nat \<Rightarrow> string \<Rightarrow> globals \<Rightarrow> (crash \<times> globals) + (nat option \<times> globals)" where
  "bpftuner_init max_tuners path s =
     (if \<not> calloc_ok s then Inr (None, bpftune_log LOG_ERR Could_not_allocate_tuner s)
      else
        (let s1 = s\<lparr>live_allocs := Suc (live_allocs s)\<rparr> in
         case libs s1 path of
           None \<Rightarrow>
             (let s2 = bpftune_log LOG_ERR (Could_not_dlopen path) s1
              in Inr (None, s2\<lparr>live_allocs := live_allocs s2 - 1\<rparr>))
         | Some so \<Rightarrow>
             (let s2 = s1\<lparr>open_handles := Suc (open_handles s1)\<rparr>;
                  tuner = zeroed_tuner
                    \<lparr>tuner_handle := path,
                     tuner_ring_buffer_map_fd := ring_buffer_map_fd s2,
                     tuner_init := (so_init so \<noteq> None),
                     tuner_fini := so_fini so,
                     tuner_event_handler := so_event_handler so\<rparr>;
                  s3 = bpftune_log LOG_DEBUG (Calling_init path) s2
              in case so_init so of
                   None \<Rightarrow> Inl (Null_call, s3)
                 | Some init \<Rightarrow>
                     (let s4 = s3\<lparr>logged := logged s3 @ [Called_init path]\<rparr>;
                          err = fst (init tuner);
                          tuner1 = snd (init tuner)
                      in if err \<noteq> 0 then
                           (let s5 = s4\<lparr>open_handles := open_handles s4 - 1\<rparr>;
                                s6 = bpftune_log LOG_ERR (Error_initializing path err) s5
                            in Inr (None, s6\<lparr>live_allocs := live_allocs s6 - 1\<rparr>))
                         else
                           (let tuner2 = tuner1\<lparr>tuner_id := bpftune_num_tuners s4,
                                                tuner_state := BPFTUNE_ACTIVE\<rparr>
                            in if bpftune_num_tuners s4 < max_tuners then
                                 (let s5 = s4\<lparr>bpftune_tuners := bpftune_tuners s4 @ [tuner2]\<rparr>
                                  in Inr (Some (tuner_id tuner2),
                                          bpftune_log LOG_DEBUG
                                            (Successfully_initialized (tuner_name tuner2) (tuner_id tuner2))
                                            s5))
                               else Inl (Out_of_bounds, s4))))))"

text \<open>The two loops of \<^verbatim>\<open>bpftuner_fini\<close>, the inner one first.\<close>

function fini_scenarios ::
    "bpftuner \<Rightarrow> nat \<Rightarrow> nat \<Rightarrow> globals \<Rightarrow> (crash \<times> globals) + (bpftuner \<times> globals)" where
  "fini_scenarios tuner i j s =
     (if j < length (scenarios tuner) then
        (let s1 = bpftune_log LOG_DEBUG (Checking_scenarios i j) s in
         case bpftuner_scenario_log tuner i j 0 True None s1 of
           Inl c \<Rightarrow> Inl c
         | Inr (tuner1, s2) \<Rightarrow>
             (case bpftuner_scenario_log tuner1 i j 1 True None s2 of
                Inl c \<Rightarrow> Inl c
              | Inr (tuner2, s3) \<Rightarrow> fini_scenarios tuner2 i (Suc j) s3))
      else Inr (tuner, s))"
  by pat_completeness auto

lemma scenario_log_summary_tuner:
  "bpftuner_scenario_log tuner i j fd True fmt s = Inr (tuner', s') \<Longrightarrow> tuner' = tuner"
  by (auto simp: bpftuner_scenario_log_def Let_def split: option.splits if_splits)

termination fini_scenarios
  by (relation "measure (\<lambda>(tuner, i, j, s). length (scenarios tuner) - j)")
     (auto dest!: scenario_log_summary_tuner)

declare fini_scenarios.simps [simp del]

lemma fini_scenarios_tuner:
  "fini_scenarios tuner i j s = Inr (tuner', s') \<Longrightarrow> tuner' = tuner"
proof (induction tuner i j s rule: fini_scenarios.induct)
  case (1 tuner i j s)
  show ?case
  proof (cases "j < length (scenarios tuner)")
    case False
    with "1.prems" show ?thesis by (simp add: fini_scenarios.simps)
  next
    case True
    from "1.prems" True obtain t1 s2 t2 s3 where
      a: "bpftuner_scenario_log tuner i j 0 True None (bpftune_log LOG_DEBUG (Checking_scenarios i j) s) = Inr (t1, s2)"
      and b: "bpftuner_scenario_log t1 i j 1 True None s2 = Inr (t2, s3)"
      and c: "fini_scenarios t2 i (Suc j) s3 = Inr (tuner', s')"
      by (subst (asm) fini_scenarios.simps) (auto simp: Let_def split: sum.splits)
    have t1: "t1 = tuner" using a by (rule scenario_log_summary_tuner)
    have t2: "t2 = t1" using b by (rule scenario_log_summary_tuner)
    from "1.IH" [OF True refl a refl b refl c] t1 t2 show ?thesis by simp
  qed
qed

function fini_tunables ::
    "bpftuner \<Rightarrow> nat \<Rightarrow> globals \<Rightarrow> (crash \<times> globals) + (bpftuner \<times> globals)" where
  "fini_tunables tuner i s =
     (if i < length (tunables tuner) then
        (case fini_scenarios tuner i 0 s of
           Inl c \<Rightarrow> Inl c
         | Inr (tuner1, s1) \<Rightarrow> fini_tunables tuner1 (Suc i) s1)
      else Inr (tuner, s))"
  by pat_completeness auto
termination
  by (relation "measure (\<lambda>(tuner, i, s). length (tunables tuner) - i)")
     (auto dest!: fini_scenarios_tuner)

declare fini_tunables.simps [simp del]

text \<open>
  \<^verbatim>\<open>bpftuner_fini(tuner, state)\<close>: \<open>None\<close> is the NULL tuner. The call of the module's
  \<^verbatim>\<open>fini\<close> is recorded with the state the tuner is in when it is called.
\<close>

definition bpftuner_fini ::
    "bpftuner option \<Rightarrow> bpftune_state \<Rightarrow> globals \<Rightarrow>
     (crash \<times> globals) + (bpftuner option \<times> globals)" where
  "bpftuner_fini tuner st s =
     (case tuner of
        None \<Rightarrow> Inr (None, s)
      | Some t \<Rightarrow>
          if tuner_state t \<noteq> BPFTUNE_ACTIVE then Inr (Some t, s)
          else
            (let s1 = bpftune_log LOG_DEBUG
                        (Cleaning_up (tuner_name t) (length (tunables t)) (length (scenarios t))) s
             in case fini_tunables t 0 s1 of
                  Inl c \<Rightarrow> Inl c
                | Inr (t1, s2) \<Rightarrow>
                    (let s3 = (if tuner_fini t1
                               then s2\<lparr>logged := logged s2 @ [Called_fini (tuner_id t1) (tuner_state t1)]\<rparr>
                               else s2)
                     in Inr (Some (t1\<lparr>tuner_state := st\<rparr>), s3))))"

text \<open>
  \<^verbatim>\<open>bpftune_ringbuf_event_read(ctx, data, size)\<close>, with \<^verbatim>\<open>sizeof(struct bpftune_event)\<close> as
  \<open>sizeof_event\<close> and \<^verbatim>\<open>BPFTUNE_MAX_TUNERS\<close> as \<open>max_tuners\<close>; \<open>event\<close> is what \<^verbatim>\<open>data\<close>
  decodes to and \<open>sz\<close> is \<^verbatim>\<open>size\<close>.
\<close>

definition bpftune_ringbuf_event_read ::
    "nat \<Rightarrow> nat \<Rightarrow> bpftune_event \<Rightarrow> nat \<Rightarrow> globals \<Rightarrow> (crash \<times> globals) + (int \<times> globals)" where
  "bpftune_ringbuf_event_read sizeof_event max_tuners event sz s =
     (if sz < sizeof_event
      then Inr (0, bpftune_log LOG_ERR (Unexpected_size_event sz) s)
      else if unat (ev_tuner_id event) > max_tuners
      then Inr (0, bpftune_log LOG_ERR (Invalid_tuner_id (ev_tuner_id event)) s)
      else
        case bpftune_tuner s (unat (ev_tuner_id event)) of
          None \<Rightarrow> Inr (0, bpftune_log LOG_ERR (No_tuner_for_id (ev_tuner_id event)) s)
        | Some tuner \<Rightarrow>
            (let s1 = bpftune_log LOG_DEBUG
                        (Event_scenario (ev_scenario_id event) (tuner_name tuner) (tuner_id tuner)
                           (ev_netns_cookie event)
                           (ev_netns_cookie event \<noteq> 0 \<and>
                            ev_netns_cookie event \<noteq> global_netns_cookie s)) s
             in if tuner_event_handler tuner
                then Inr (0, s1\<lparr>logged := logged s1 @ [Called_event_handler (tuner_id tuner) event]\<rparr>)
                else Inl (Null_call, s1)))"

section \<open>Per-tuner namespace state\<close>

text \<open>
  Modelled from the spec: the iteration macros \<^verbatim>\<open>bpftune_for_each_tuner\<close> and
  \<^verbatim>\<open>bpftuner_for_each_netns\<close> of the missing header. The first visits the registered
  tuners in registration order, from index 0 until \<^verbatim>\<open>bpftune_tuner\<close> returns NULL; the
  second walks a tuner's list from its embedded head along \<^verbatim>\<open>next\<close>.
\<close>

definition netns_nodes :: "bpftuner \<Rightarrow> cookie list" where
  "netns_nodes tuner = netns_cookie tuner # netns_next tuner"

fun find_netns :: "cookie \<Rightarrow> cookie list \<Rightarrow> nat \<Rightarrow> nat option" where
  "find_netns cookie [] pos = None"
| "find_netns cookie (c # cs) pos =
     (if cookie = c then Some pos else find_netns cookie cs (Suc pos))"

function each_tuner_from_cookie :: "nat \<Rightarrow> nat \<Rightarrow> cookie \<Rightarrow> globals \<Rightarrow> (nat \<times> nat) option" where
  "each_tuner_from_cookie i tid cookie s =
     (case bpftune_tuner s i of
        None \<Rightarrow> None
      | Some tuner \<Rightarrow>
          if tuner_id tuner \<noteq> tid then each_tuner_from_cookie (Suc i) tid cookie s
          else if cookie = 0 then Some (i, 0)
          else
            (case find_netns cookie (netns_nodes tuner) 0 of
               Some pos \<Rightarrow> Some (i, pos)
             | None \<Rightarrow> each_tuner_from_cookie (Suc i) tid cookie s))"
  by pat_completeness auto
termination
  by (relation "measure (\<lambda>(i, tid, cookie, s). bpftune_num_tuners s - i)")
     (auto simp: bpftune_tuner_def split: if_splits)

declare each_tuner_from_cookie.simps [simp del]

text \<open>
  \<^verbatim>\<open>bpftuner_netns_from_cookie(tuner_id, cookie)\<close>: the node found, as the index of its
  tuner and its position in that tuner's list (0 is the embedded head), or \<open>None\<close> for
  NULL.
\<close>

definition bpftuner_netns_from_cookie ::
    "nat \<Rightarrow> cookie \<Rightarrow> globals \<Rightarrow> (nat \<times> nat) option \<times> globals" where
  "bpftuner_netns_from_cookie tid cookie s =
     (if \<not> netns_cookie_supported s then (None, s)
      else
        case each_tuner_from_cookie 0 tid cookie s of
          Some node \<Rightarrow> (Some node, s)
        | None \<Rightarrow> (None, bpftune_log LOG_DEBUG (No_tuner_netns_found tid cookie) s))"

text \<open>
  \<^verbatim>\<open>bpftuner_netns_init(tuner, cookie)\<close>, for the registered tuner at index \<open>p\<close>: the new
  node goes behind the last one.
\<close>

definition bpftuner_netns_init :: "nat \<Rightarrow> cookie \<Rightarrow> globals \<Rightarrow> globals" where
  "bpftuner_netns_init p cookie s =
     (case bpftuner_netns_from_cookie (tuner_id (bpftune_tuners s ! p)) cookie s of
        (Some node, s1) \<Rightarrow> s1
      | (None, s1) \<Rightarrow>
          if calloc_ok s1
          then s1\<lparr>live_allocs := Suc (live_allocs s1),
                  bpftune_tuners := (bpftune_tuners s1)
                    [p := (bpftune_tuners s1 ! p)
                            \<lparr>netns_next := netns_next (bpftune_tuners s1 ! p) @ [cookie]\<rparr>]\<rparr>
          else bpftune_log LOG_ERR Unable_to_allocate_netns s1)"

text \<open>The loop of \<^verbatim>\<open>bpftuner_netns_fini\<close> behind the head: the list without the first node that holds the cookie.\<close>

fun unlink_netns :: "cookie \<Rightarrow> cookie list \<Rightarrow> cookie list option" where
  "unlink_netns cookie [] = None"
| "unlink_netns cookie (c # cs) =
     (if c = cookie then Some cs else map_option ((#) c) (unlink_netns cookie cs))"

definition bpftuner_netns_fini :: "nat \<Rightarrow> cookie \<Rightarrow> globals \<Rightarrow> globals" where
  "bpftuner_netns_fini p cookie s =
     (if \<not> netns_cookie_supported s then s
      else
        (let tuner = bpftune_tuners s ! p in
         if netns_cookie tuner = cookie then s
         else
           case unlink_netns cookie (netns_next tuner) of
             Some rest \<Rightarrow> s\<lparr>bpftune_tuners := (bpftune_tuners s)[p := tuner\<lparr>netns_next := rest\<rparr>]\<rparr>
           | None \<Rightarrow> bpftune_log LOG_DEBUG (Netns_fini_not_found cookie) s))"

section \<open>Notions used to state the properties of the registry\<close>

text \<open>The calls into modules among the events of a log.\<close>

fun is_module_call :: "trace_event \<Rightarrow> bool" where
  "is_module_call (Log level msg) = False"
| "is_module_call (Called_init path) = True"
| "is_module_call (Called_fini tid st) = True"
| "is_module_call (Called_event_handler tid event) = True"

definition module_calls :: "trace_event list \<Rightarrow> trace_event list" where
  "module_calls evs = filter is_module_call evs"

text \<open>
  What the spec says unload reports, written from its words: for the tunables in index
  order and, for each, the scenarios in index order, the summary of the global bucket
  and then of the non-global bucket; a summary is nothing when its counter is zero and
  otherwise the count line, followed for a sysctl tunable by the line comparing initial
  and current values. The debug line of each (tunable, scenario) pair stands before its
  summaries.
\<close>

definition summary_lines :: "bpftuner \<Rightarrow> nat \<Rightarrow> nat \<Rightarrow> bool \<Rightarrow> trace_event list" where
  "summary_lines tuner i j global_ns =
     (let t = tunables tuner ! i;
          sc = scenarios tuner ! j;
          count = (if global_ns then stats_global_ns t j else stats_nonglobal_ns t j)
      in if count = 0 then []
         else Log LOG_INFO (Summary (scn_name sc) count (desc_name (desc t)) global_ns (scn_description sc)) #
              (if desc_type (desc t) = BPFTUNABLE_SYSCTL
               then [Log LOG_INFO
                       (Sysctl_changed (desc_name (desc t))
                          (map (\<lambda>k. initial_values t ! k) [0..<desc_num_values (desc t)])
                          (map (\<lambda>k. current_values t ! k) [0..<desc_num_values (desc t)]))]
               else []))"

definition scenario_report :: "bpftuner \<Rightarrow> nat \<Rightarrow> nat \<Rightarrow> trace_event list" where
  "scenario_report tuner i j =
     Log LOG_DEBUG (Checking_scenarios i j) #
     summary_lines tuner i j True @ summary_lines tuner i j False"

definition unload_report :: "bpftuner \<Rightarrow> trace_event list" where
  "unload_report tuner =
     concat (map (\<lambda>i. concat (map (\<lambda>j. scenario_report tuner i j) [0..<length (scenarios tuner)]))
               [0..<length (tunables tuner)])"

text \<open>Sequences of per-namespace initialisations and finalisations, and the uniqueness of cookies.\<close>

datatype netns_op = Netns_init nat cookie | Netns_fini nat cookie

fun netns_op_tuner :: "netns_op \<Rightarrow> nat" where
  "netns_op_tuner (Netns_init p cookie) = p"
| "netns_op_tuner (Netns_fini p cookie) = p"

fun apply_netns_op :: "netns_op \<Rightarrow> globals \<Rightarrow> globals" where
  "apply_netns_op (Netns_init p cookie) s = bpftuner_netns_init p cookie s"
| "apply_netns_op (Netns_fini p cookie) s = bpftuner_netns_fini p cookie s"

fun apply_netns_ops :: "netns_op list \<Rightarrow> globals \<Rightarrow> globals" where
  "apply_netns_ops [] s = s"
| "apply_netns_ops (op # ops) s = apply_netns_ops ops (apply_netns_op op s)"

definition cookies_unique :: "globals \<Rightarrow> bool" where
  "cookies_unique s = list_all (\<lambda>tuner. distinct (netns_nodes tuner)) (bpftune_tuners s)"

definition ops_on_registered :: "netns_op list \<Rightarrow> globals \<Rightarrow> bool" where
  "ops_on_registered ops s = list_all (\<lambda>op. netns_op_tuner op < bpftune_num_tuners s) ops"

section \<open>A host with one namespace besides its own, and one tuner\<close>

text \<open>
  The handler of an entry that holds a vector of numbers: a write replaces the leading
  entries it gives and leaves the others as they were.
\<close>

definition vector_store :: "tok list \<Rightarrow> tok list \<Rightarrow> tok list" where
  "vector_store old printed = take (length old) printed @ drop (length printed) old"

definition tcp_rmem :: sysctl_file where
  "tcp_rmem = \<lparr>f_readable = True, f_writable = True,
                f_content = [Num 4096, Num 131072, Num 6291456],
                f_store = vector_store\<rparr>"

definition example_tunable :: bpftunable where
  "example_tunable =
     \<lparr>desc = \<lparr>desc_type = BPFTUNABLE_SYSCTL, desc_name = ''net.ipv4.tcp_rmem'',
              desc_namespaced = True, desc_num_values = 3\<rparr>,
      initial_values = [4096, 131072, 6291456],
      current_values = [4096, 131072, 6291456],
      stats_global_ns = (\<lambda>j. 0), stats_nonglobal_ns = (\<lambda>j. 0)\<rparr>"

definition example_tuner :: bpftuner where
  "example_tuner =
     \<lparr>tuner_handle = ''tcp_buffer_tuner.so'', tuner_name = ''tcp_buffer'', tuner_id = 0,
      tuner_state = BPFTUNE_ACTIVE, tuner_init = True, tuner_fini = True,
      tuner_event_handler = True, tuner_ring_buffer_map_fd = 0,
      tunables = [example_tunable],
      scenarios = [\<lparr>scn_name = ''need to increase TCP buffer size'',
                    scn_description = ''increase buffer size maximum''\<rparr>],
      netns_cookie = 0, netns_next = []\<rparr>"

definition example_module :: shared_object where
  "example_module =
     \<lparr>so_init = Some (\<lambda>tuner. (0, tuner\<lparr>tuner_name := ''tcp_buffer''\<rparr>)),
      so_fini = True, so_event_handler = True\<rparr>"

definition example_host :: globals where
  "example_host =
     \<lparr>cur_ns = 0, fd_tab = [None, None, None, Some 1], open_self_ok = True,
      setns_ok = (\<lambda>ns. True),
      files = (\<lambda>ns. if ns \<le> 1 then [''/proc/sys/net/ipv4/tcp_rmem'' \<mapsto> tcp_rmem] else Map.empty),
      errno = 0, fopen_w_calls = 0,
      libs = [''tcp_buffer_tuner.so'' \<mapsto> example_module,
              ''no_fini_tuner.so'' \<mapsto> example_module\<lparr>so_fini := False\<rparr>],
      calloc_ok = True, live_allocs = 0, open_handles = 0, ring_buffer_map_fd = 0,
      bpftune_tuners = [example_tuner], netns_cookie_supported = True,
      global_netns_cookie = 1, logged = []\<rparr>"


text \<open>The same host with a sysctl file that cannot be opened for writing.\<close>

definition readonly_host :: globals where
  "readonly_host =
     example_host\<lparr>files := (\<lambda>ns. [''/proc/sys/net/ipv4/tcp_rmem'' \<mapsto> tcp_rmem\<lparr>f_writable := False\<rparr>])\<rparr>"

text \<open>The message \<^verbatim>\<open>bpftune_ringbuf_event_read\<close> logs for an event it drops.\<close>

definition drop_message :: "nat \<Rightarrow> nat \<Rightarrow> bpftune_event \<Rightarrow> nat \<Rightarrow> logmsg" where
  "drop_message sizeof_event max_tuners event sz =
     (if sz < sizeof_event then Unexpected_size_event sz
      else if unat (ev_tuner_id event) > max_tuners then Invalid_tuner_id (ev_tuner_id event)
      else No_tuner_for_id (ev_tuner_id event))"

text \<open>The example tuner after two occurrences of its scenario in the global namespace, with a raised maximum.\<close>

definition counted_tuner :: bpftuner where
  "counted_tuner =
     example_tuner\<lparr>tunables :=
       [example_tunable\<lparr>current_values := [4096, 131072, 12582912],
                        stats_global_ns := (\<lambda>j. 2)\<rparr>]\<rparr>"

text \<open>The example host on a kernel without namespace cookies.\<close>

definition unsupported_host :: globals where
  "unsupported_host = example_host\<lparr>netns_cookie_supported := False\<rparr>"

section \<open>The sysctl layer: lemmas\<close>

lemmas syscall_defs = sys_open_self_ns_def sys_close_def sys_setns_def fd_ns_def bpftune_log_def
  EPERM_def EBADF_def EMFILE_def


lemma netns_set_ok:
  "switch_target s fd = Some ns \<Longrightarrow>
     fst (bpftune_netns_set fd w s) = 0 \<and> cur_ns (snd (snd (bpftune_netns_set fd w s))) = ns"
  by (auto simp: switch_target_def bpftune_netns_set_def syscall_defs Let_def nth_append
           split: if_splits option.splits)

lemma netns_set_frame:
  "files (snd (snd (bpftune_netns_set fd w s))) = files s \<and>
   fopen_w_calls (snd (snd (bpftune_netns_set fd w s))) = fopen_w_calls s \<and>
   open_self_ok (snd (snd (bpftune_netns_set fd w s))) = open_self_ok s \<and>
   setns_ok (snd (snd (bpftune_netns_set fd w s))) = setns_ok s"
  by (auto simp: bpftune_netns_set_def syscall_defs Let_def nth_append
           split: if_splits option.splits)


lemma netns_set_zero: "bpftune_netns_set 0 w s = (0, 0, s)"
  by (simp add: bpftune_netns_set_def)


lemma same_kernel_log: "same_kernel (bpftune_log l m s) s"
  by (simp add: same_kernel_def bpftune_log_def)


lemma log_read_values_kernel: "same_kernel (log_read_values name i vs s) s"
  by (induction vs arbitrary: i s) (auto simp: same_kernel_def bpftune_log_def)

lemma switch_target_cong:
  "same_kernel s t \<Longrightarrow> switch_target s fd = switch_target t fd"
  by (auto simp: same_kernel_def switch_target_def fd_ns_def split: option.splits)

lemma read0_count:
  "fst (bpftune_sysctl_read 0 name s) = fst (scan_at s (cur_ns s) (bpftune_sysctl_name_to_path name 512))"
  by (simp add: bpftune_sysctl_read_def netns_set_zero scan_at_def fopen_r_def Let_def
           split: option.splits)


lemma read0_kernel: "same_kernel (snd (snd (bpftune_sysctl_read 0 name s))) s"
proof -
  have "same_kernel (log_read_values name 0 vs (s\<lparr>errno := e\<rparr>)) s" for vs e
    using log_read_values_kernel [of name 0 vs "s\<lparr>errno := e\<rparr>"]
    by (simp add: same_kernel_def)
  then show ?thesis
    using log_read_values_kernel [of name 0 _ s]
    by (auto simp: bpftune_sysctl_read_def netns_set_zero fopen_r_def Let_def same_kernel_def
          bpftune_log_def split: option.splits)
qed













lemma write_read_error:
  assumes tgt: "switch_target s fd = Some ns"
    and scan: "fst (scan_at s ns (bpftune_sysctl_name_to_path name 512)) < 0"
  shows "fst (bpftune_sysctl_write fd name n vals s) = 0"
    and "fopen_w_calls (snd (bpftune_sysctl_write fd name n vals s)) = fopen_w_calls s"
proof -
  define path where "path = bpftune_sysctl_name_to_path name 512"
  define s0 where "s0 = bpftune_log LOG_DEBUG (Writing_sysctl path fd) s"
  define orig where "orig = fst (snd (bpftune_netns_set fd True s0))"
  define s1 where "s1 = snd (snd (bpftune_netns_set fd True s0))"
  define s2 where "s2 = snd (snd (bpftune_sysctl_read 0 name s1))"
  define s3 where "s3 = snd (snd (bpftune_netns_set orig False s2))"
  have k0: "same_kernel s0 s" by (simp add: s0_def same_kernel_log)
  then have tgt0: "switch_target s0 fd = Some ns" using tgt switch_target_cong by simp
  have err: "fst (bpftune_netns_set fd True s0) = 0" and ns1: "cur_ns s1 = ns"
    using netns_set_ok [OF tgt0, of True] by (simp_all add: s1_def)
  have f1: "files s1 = files s" and c1: "fopen_w_calls s1 = fopen_w_calls s"
    using netns_set_frame [of fd True s0] k0 by (simp_all add: s1_def same_kernel_def)
  have cnt: "fst (bpftune_sysctl_read 0 name s1) < 0"
    using scan ns1 f1 by (simp add: read0_count path_def scan_at_def)
  have c3: "fopen_w_calls s3 = fopen_w_calls s"
    using read0_kernel [of name s1] c1 netns_set_frame [of orig False s2]
    by (simp add: s2_def s3_def same_kernel_def)
  have "bpftune_sysctl_write fd name n vals s = (0, s3)"
    using err cnt
    by (simp add: bpftune_sysctl_write_def case_prod_beta Let_def path_def [symmetric]
          s0_def [symmetric] orig_def [symmetric] s1_def [symmetric] s2_def [symmetric]
          s3_def [symmetric])
  with c3 show "fst (bpftune_sysctl_write fd name n vals s) = 0"
    and "fopen_w_calls (snd (bpftune_sysctl_write fd name n vals s)) = fopen_w_calls s"
    by simp_all
qed


section \<open>The sysctl layer: properties\<close>

text \<open>
  C1, as the code has it. The claim is that after every call of the sysctl write
  operation, the idempotent skip included, the calling thread is in the namespace it was
  in before. \<^verbatim>\<open>bpftune_sysctl_write\<close> returns from the skip without going through the
  label \<^verbatim>\<open>out\<close>: on a host in namespace 0, a write of the values that namespace 1
  already holds, through descriptor 3 of namespace 1, returns 0 and leaves the thread in
  namespace 1.
\<close>

theorem sysctl_write_skip_stays_in_target_namespace:
  "cur_ns example_host = 0 \<and>
   fst (bpftune_sysctl_write 3 ''net.ipv4.tcp_rmem'' 3 [4096, 131072, 6291456] example_host) = 0 \<and>
   cur_ns (snd (bpftune_sysctl_write 3 ''net.ipv4.tcp_rmem'' 3 [4096, 131072, 6291456] example_host)) = 1 \<and>
   cur_ns (snd (bpftune_sysctl_write 3 ''net.ipv4.tcp_rmem'' 3 [4096, 131072, 7] example_host)) = 0"
  by code_simp

text \<open>
  C5, as the code has it. The claim is that the sysctl read operation returns an error,
  not a count, when the path cannot be opened or the scan fails.
  \<^verbatim>\<open>bpftune_sysctl_read\<close> sets \<^verbatim>\<open>err\<close> on these paths and returns \<^verbatim>\<open>num_values\<close>: for a
  name with no file it logs the failure and returns 0, and for a file whose first token
  is no number it returns 0 as well.
\<close>

theorem sysctl_read_returns_count_on_open_failure:
  "files example_host 0 (bpftune_sysctl_name_to_path ''net.ipv4.no_such_sysctl'' 512) = None \<and>
   fst (bpftune_sysctl_read 0 ''net.ipv4.no_such_sysctl'' example_host) = 0 \<and>
   logged (snd (snd (bpftune_sysctl_read 0 ''net.ipv4.no_such_sysctl'' example_host))) =
     [Log LOG_ERR (Could_not_open_for_reading ''/proc/sys/net/ipv4/no_such_sysctl'' 0 (- ENOENT))] \<and>
   fst (bpftune_sysctl_read 0 ''net.ipv4.tcp_rmem''
          (example_host\<lparr>files := (\<lambda>ns. [''/proc/sys/net/ipv4/tcp_rmem'' \<mapsto> tcp_rmem\<lparr>f_content := [Junk]\<rparr>])\<rparr>)) = 0"
  by code_simp





section \<open>The event dispatcher: properties\<close>

text \<open>
  C10. A record shorter than \<^verbatim>\<open>struct bpftune_event\<close> is dropped:
  \<^verbatim>\<open>bpftune_ringbuf_event_read\<close> logs the error "unexpected size event", calls no module
  and returns 0, so that polling goes on; nothing but the log changes.
\<close>

theorem short_record_dropped:
  "sz < sizeof_event \<Longrightarrow>
   bpftune_ringbuf_event_read sizeof_event max_tuners event sz s =
     Inr (0, bpftune_log LOG_ERR (Unexpected_size_event sz) s) \<and>
   module_calls (logged (bpftune_log LOG_ERR (Unexpected_size_event sz) s)) = module_calls (logged s)"
  by (simp add: bpftune_ringbuf_event_read_def bpftune_log_def module_calls_def)

theorem short_record_dropped_witness:
  "(8::nat) < 152 \<and>
   bpftune_ringbuf_event_read 152 64 \<lparr>ev_tuner_id = 0, ev_scenario_id = 0, ev_netns_cookie = 0\<rparr> 8 example_host =
     Inr (0, bpftune_log LOG_ERR (Unexpected_size_event 8) example_host) \<and>
   module_calls (logged (bpftune_log LOG_ERR (Unexpected_size_event 8) example_host)) =
     module_calls (logged example_host)"
proof -
  have h: "(8::nat) < 152" by simp
  from short_record_dropped [OF h] h show ?thesis by blast
qed

text \<open>
  C6. An event whose tuner id is not the id of a registered tuner (it is at least
  \<^verbatim>\<open>bpftune_num_tuners\<close>) is dropped: \<^verbatim>\<open>bpftune_ringbuf_event_read\<close> logs one error, calls
  no module and returns 0; nothing but the log changes.
\<close>

theorem unregistered_tuner_id_dropped:
  "bpftune_num_tuners s \<le> unat (ev_tuner_id event) \<Longrightarrow>
   bpftune_ringbuf_event_read sizeof_event max_tuners event sz s =
     Inr (0, bpftune_log LOG_ERR (drop_message sizeof_event max_tuners event sz) s) \<and>
   module_calls (logged (bpftune_log LOG_ERR (drop_message sizeof_event max_tuners event sz) s)) =
     module_calls (logged s)"
  by (simp add: bpftune_ringbuf_event_read_def bpftune_log_def module_calls_def
        drop_message_def bpftune_tuner_def)

theorem unregistered_tuner_id_dropped_witness:
  "bpftune_num_tuners example_host \<le> unat (ev_tuner_id \<lparr>ev_tuner_id = 5, ev_scenario_id = 0, ev_netns_cookie = 0\<rparr>) \<and>
   bpftune_ringbuf_event_read 152 64 \<lparr>ev_tuner_id = 5, ev_scenario_id = 0, ev_netns_cookie = 0\<rparr> 152 example_host =
     Inr (0, bpftune_log LOG_ERR (No_tuner_for_id 5) example_host) \<and>
   module_calls (logged (bpftune_log LOG_ERR (No_tuner_for_id 5) example_host)) =
     module_calls (logged example_host)"
proof -
  have h: "bpftune_num_tuners example_host \<le>
      unat (ev_tuner_id \<lparr>ev_tuner_id = 5, ev_scenario_id = 0, ev_netns_cookie = 0\<rparr>)"
    by (simp add: bpftune_num_tuners_def example_host_def)
  have m: "drop_message 152 64 \<lparr>ev_tuner_id = 5, ev_scenario_id = 0, ev_netns_cookie = 0\<rparr> 152 =
      No_tuner_for_id 5"
    by (simp add: drop_message_def)
  from unregistered_tuner_id_dropped [OF h, of 152 64 152] h show ?thesis
    unfolding m by blast
qed

section \<open>The tunable store: properties\<close>

text \<open>
  C2, as the code has it. The claim is that a write whose kernel write step fails reports
  failure and leaves \<^verbatim>\<open>current_values\<close> unchanged. \<^verbatim>\<open>bpftune_sysctl_write\<close> sets \<^verbatim>\<open>err\<close>
  when \<^verbatim>\<open>fopen(path, "w")\<close> fails and returns 0 at the label \<^verbatim>\<open>out\<close>; on a host whose
  \<^verbatim>\<open>tcp_rmem\<close> cannot be opened for writing, \<^verbatim>\<open>bpftuner_tunable_sysctl_write\<close> of
  \<open>[1, 1, 1]\<close> therefore returns 0, counts the scenario and sets \<^verbatim>\<open>current_values\<close> to
  \<open>[1, 1, 1]\<close>, while the kernel still holds the old values.
\<close>

theorem failed_write_reported_as_success:
  "(case bpftuner_tunable_sysctl_write example_tuner 0 0 0 3 [1, 1, 1]
           (Some ''raising tcp_rmem'') readonly_host of
      Inl c \<Rightarrow> False
    | Inr (ret, tuner, s) \<Rightarrow>
        ret = 0 \<and>
        current_values (tunables tuner ! 0) = [1, 1, 1] \<and>
        stats_global_ns (tunables tuner ! 0) 0 = 1 \<and>
        fopen_w_calls s = 1 \<and>
        scan_at s 0 ''/proc/sys/net/ipv4/tcp_rmem'' = (3, [4096, 131072, 6291456]) \<and>
        Log LOG_DEBUG (Could_not_open_for_writing ''/proc/sys/net/ipv4/tcp_rmem'' (- EACCES)) \<in> set (logged s))"
  by code_simp

section \<open>The registry: properties\<close>

text \<open>
  The entry points are used as \<^verbatim>\<open>dlsym\<close> returned them: a module without \<^verbatim>\<open>init\<close>
  makes \<^verbatim>\<open>bpftuner_init\<close> call a NULL pointer, and an event for a registered tuner
  without \<^verbatim>\<open>event_handler\<close> makes \<^verbatim>\<open>bpftune_ringbuf_event_read\<close> do so.
\<close>

lemma load_without_init_calls_null:
  "calloc_ok s \<Longrightarrow> libs s path = Some so \<Longrightarrow> so_init so = None \<Longrightarrow>
   \<exists>s'. bpftuner_init max_tuners path s = Inl (Null_call, s')"
  by (simp add: bpftuner_init_def Let_def)

lemma event_without_handler_calls_null:
  "sizeof_event \<le> sz \<Longrightarrow> unat (ev_tuner_id event) \<le> max_tuners \<Longrightarrow>
   bpftune_tuner s (unat (ev_tuner_id event)) = Some tuner \<Longrightarrow> \<not> tuner_event_handler tuner \<Longrightarrow>
   \<exists>s'. bpftune_ringbuf_event_read sizeof_event max_tuners event sz s = Inl (Null_call, s')"
  by (simp add: bpftune_ringbuf_event_read_def Let_def)

text \<open>
  C3, as the code has it. The claim is that a load into a full registry fails with a
  capacity error and leaves the registry untouched. \<^verbatim>\<open>bpftuner_init\<close> never compares
  \<^verbatim>\<open>bpftune_num_tuners\<close> with \<^verbatim>\<open>BPFTUNE_MAX_TUNERS\<close>: when the table is full and the module
  loads and initialises, the module's \<^verbatim>\<open>init\<close> has been called and the run reaches the
  store \<^verbatim>\<open>bpftune_tuners[bpftune_num_tuners++] = tuner\<close> past the end of the table.
\<close>

theorem load_at_capacity_stores_out_of_bounds:
  "calloc_ok s \<and> libs s path = Some so \<and> so_init so = Some init \<and> (\<forall>t. fst (init t) = 0) \<and>
   bpftune_num_tuners s = max_tuners \<longrightarrow>
   (\<exists>s'. bpftuner_init max_tuners path s = Inl (Out_of_bounds, s') \<and>
         module_calls (logged s') = module_calls (logged s) @ [Called_init path] \<and>
         bpftune_tuners s' = bpftune_tuners s)"
  by (simp add: bpftuner_init_def Let_def bpftune_log_def bpftune_num_tuners_def
        module_calls_def)

theorem load_at_capacity_stores_out_of_bounds_witness:
  "calloc_ok example_host \<and> bpftune_num_tuners example_host = 1 \<and>
   (\<exists>s'. bpftuner_init 1 ''tcp_buffer_tuner.so'' example_host = Inl (Out_of_bounds, s') \<and>
         module_calls (logged s') = module_calls (logged example_host) @ [Called_init ''tcp_buffer_tuner.so''] \<and>
         bpftune_tuners s' = bpftune_tuners example_host)"
proof -
  have h: "calloc_ok example_host \<and>
      libs example_host ''tcp_buffer_tuner.so'' = Some example_module \<and>
      so_init example_module = Some (\<lambda>tuner. (0, tuner\<lparr>tuner_name := ''tcp_buffer''\<rparr>)) \<and>
      (\<forall>t. fst ((\<lambda>tuner. (0::int, tuner\<lparr>tuner_name := ''tcp_buffer''\<rparr>)) t) = 0) \<and>
      bpftune_num_tuners example_host = 1"
    by (simp add: example_host_def example_module_def bpftune_num_tuners_def)
  from load_at_capacity_stores_out_of_bounds [of example_host "''tcp_buffer_tuner.so''" example_module
         "\<lambda>tuner. (0, tuner\<lparr>tuner_name := ''tcp_buffer''\<rparr>)" 1] h
  show ?thesis by blast
qed

text \<open>
  C7, as stated, fails: the claim is that the load fails when any of the three entry
  points is missing. \<^verbatim>\<open>bpftuner_init\<close> checks none of the \<^verbatim>\<open>dlsym\<close> results, and
  \<^verbatim>\<open>bpftuner_fini\<close> guards its call of \<^verbatim>\<open>fini\<close>: a module without \<^verbatim>\<open>fini\<close> is loaded and
  registered as active.
\<close>

theorem load_without_fini_succeeds:
  "map_option so_fini (libs example_host ''no_fini_tuner.so'') = Some False \<and>
   (case bpftuner_init 64 ''no_fini_tuner.so'' example_host of
      Inl c \<Rightarrow> False
    | Inr (None, s') \<Rightarrow> False
    | Inr (Some p, s') \<Rightarrow>
        p = 1 \<and> bpftune_num_tuners s' = 2 \<and>
        tuner_state (bpftune_tuners s' ! 1) = BPFTUNE_ACTIVE \<and>
        \<not> tuner_fini (bpftune_tuners s' ! 1))"
  by code_simp

text \<open>
  C7, amended. The load returns no module when the module cannot be resolved, and then
  the registry, the count of live allocations and the count of open handles are what
  they were, and no module code has been called. Finalize is optional: a resolved module
  that has \<^verbatim>\<open>init\<close> and no \<^verbatim>\<open>fini\<close>, whose \<^verbatim>\<open>init\<close> returns 0, is registered as active
  under the next id when the table has room.
\<close>

theorem load_failure_retains_nothing:
  "(libs s path = None \<longrightarrow>
      (\<exists>s'. bpftuner_init max_tuners path s = Inr (None, s') \<and>
            bpftune_tuners s' = bpftune_tuners s \<and>
            live_allocs s' = live_allocs s \<and> open_handles s' = open_handles s \<and>
            module_calls (logged s') = module_calls (logged s))) \<and>
   (calloc_ok s \<and> libs s path = Some so \<and> so_init so = Some init \<and> \<not> so_fini so \<and>
    (\<forall>t. fst (init t) = 0) \<and> bpftune_num_tuners s < max_tuners \<longrightarrow>
      (\<exists>s' tuner. bpftuner_init max_tuners path s = Inr (Some (bpftune_num_tuners s), s') \<and>
            bpftune_tuners s' = bpftune_tuners s @ [tuner] \<and>
            tuner_id tuner = bpftune_num_tuners s \<and>
            tuner_state tuner = BPFTUNE_ACTIVE))"
  by (simp add: bpftuner_init_def Let_def bpftune_log_def bpftune_num_tuners_def
        module_calls_def)

theorem load_failure_retains_nothing_witness:
  "libs example_host ''missing_tuner.so'' = None \<and>
   (\<exists>s'. bpftuner_init 64 ''missing_tuner.so'' example_host = Inr (None, s') \<and>
         bpftune_tuners s' = bpftune_tuners example_host \<and>
         live_allocs s' = live_allocs example_host \<and> open_handles s' = open_handles example_host \<and>
         module_calls (logged s') = module_calls (logged example_host)) \<and>
   map_option so_fini (libs example_host ''no_fini_tuner.so'') = Some False \<and>
   (\<exists>s' tuner. bpftuner_init 64 ''no_fini_tuner.so'' example_host =
         Inr (Some (bpftune_num_tuners example_host), s') \<and>
         bpftune_tuners s' = bpftune_tuners example_host @ [tuner] \<and>
         tuner_id tuner = bpftune_num_tuners example_host \<and>
         tuner_state tuner = BPFTUNE_ACTIVE)"
proof -
  have a: "libs example_host ''missing_tuner.so'' = None"
    by (simp add: example_host_def)
  have b: "calloc_ok example_host \<and>
      libs example_host ''no_fini_tuner.so'' = Some (example_module\<lparr>so_fini := False\<rparr>) \<and>
      so_init (example_module\<lparr>so_fini := False\<rparr>) = Some (\<lambda>tuner. (0, tuner\<lparr>tuner_name := ''tcp_buffer''\<rparr>)) \<and>
      \<not> so_fini (example_module\<lparr>so_fini := False\<rparr>) \<and>
      (\<forall>t. fst ((\<lambda>tuner. (0::int, tuner\<lparr>tuner_name := ''tcp_buffer''\<rparr>)) t) = 0) \<and>
      bpftune_num_tuners example_host < 64"
    by (simp add: example_host_def example_module_def bpftune_num_tuners_def)
  have c: "map_option so_fini (libs example_host ''no_fini_tuner.so'') = Some False"
    using b by simp
  note t = load_failure_retains_nothing
  from t [of example_host "''missing_tuner.so''" 64] a
  have 1: "\<exists>s'. bpftuner_init 64 ''missing_tuner.so'' example_host = Inr (None, s') \<and>
         bpftune_tuners s' = bpftune_tuners example_host \<and>
         live_allocs s' = live_allocs example_host \<and> open_handles s' = open_handles example_host \<and>
         module_calls (logged s') = module_calls (logged example_host)"
    by blast
  from t [of example_host "''no_fini_tuner.so''" 64 "example_module\<lparr>so_fini := False\<rparr>"
         "\<lambda>tuner. (0, tuner\<lparr>tuner_name := ''tcp_buffer''\<rparr>)"] b
  have 2: "\<exists>s' tuner. bpftuner_init 64 ''no_fini_tuner.so'' example_host =
         Inr (Some (bpftune_num_tuners example_host), s') \<and>
         bpftune_tuners s' = bpftune_tuners example_host @ [tuner] \<and>
         tuner_id tuner = bpftune_num_tuners example_host \<and>
         tuner_state tuner = BPFTUNE_ACTIVE"
    by blast
  from a 1 c 2 show ?thesis by blast
qed

lemma scenario_log_summary:
  "i < length (tunables t) \<Longrightarrow> j < length (scenarios t) \<Longrightarrow>
   bpftuner_scenario_log t i j fd True fmt s =
     Inr (t, s\<lparr>logged := logged s @ summary_lines t i j (fd = 0)\<rparr>)"
  by (simp add: bpftuner_scenario_log_def bpftuner_tunable_def summary_lines_def Let_def
        bpftune_log_def)

lemma fini_scenarios_log:
  "i < length (tunables t) \<Longrightarrow> j \<le> length (scenarios t) \<Longrightarrow>
   fini_scenarios t i j s =
     Inr (t, s\<lparr>logged := logged s @
                 concat (map (scenario_report t i) [j..<length (scenarios t)])\<rparr>)"
proof (induction "length (scenarios t) - j" arbitrary: j s)
  case 0
  then have "j = length (scenarios t)" by simp
  then show ?case by (subst fini_scenarios.simps) simp
next
  case (Suc n)
  then have lt: "j < length (scenarios t)" by simp
  have up: "[j..<length (scenarios t)] = j # [Suc j..<length (scenarios t)]"
    using lt by (simp add: upt_conv_Cons)
  have ih: "fini_scenarios t i (Suc j) s' =
      Inr (t, s'\<lparr>logged := logged s' @
                 concat (map (scenario_report t i) [Suc j..<length (scenarios t)])\<rparr>)" for s'
    using Suc.hyps(1) [of "Suc j" s'] Suc.hyps(2) Suc.prems lt by simp
  show ?case
    by (subst fini_scenarios.simps)
       (simp add: lt Let_def scenario_log_summary [OF Suc.prems(1) lt] ih up
          scenario_report_def bpftune_log_def)
qed

lemma fini_tunables_log:
  "i \<le> length (tunables t) \<Longrightarrow>
   fini_tunables t i s =
     Inr (t, s\<lparr>logged := logged s @
                 concat (map (\<lambda>i. concat (map (scenario_report t i) [0..<length (scenarios t)]))
                           [i..<length (tunables t)])\<rparr>)"
proof (induction "length (tunables t) - i" arbitrary: i s)
  case 0
  then have "i = length (tunables t)" by simp
  then show ?case by (subst fini_tunables.simps) simp
next
  case (Suc n)
  then have lt: "i < length (tunables t)" by simp
  have up: "[i..<length (tunables t)] = i # [Suc i..<length (tunables t)]"
    using lt by (simp add: upt_conv_Cons)
  have ih: "fini_tunables t (Suc i) s' =
      Inr (t, s'\<lparr>logged := logged s' @
                 concat (map (\<lambda>i. concat (map (scenario_report t i) [0..<length (scenarios t)]))
                           [Suc i..<length (tunables t)])\<rparr>)" for s'
    using Suc.hyps(1) [of "Suc i" s'] Suc.hyps(2) lt by simp
  show ?case
    by (subst fini_tunables.simps)
       (simp add: lt fini_scenarios_log [OF lt] ih up)
qed

text \<open>
  C9. \<^verbatim>\<open>bpftuner_fini\<close> does nothing for the NULL tuner and for a tuner that is not
  active. For an active tuner it logs, after its opening debug line, exactly
  \<open>unload_report\<close>: for each tunable in index order and each scenario in index order
  the summary of the global and then of the non-global bucket, nothing for a bucket
  whose counter is zero; only then is the module's \<^verbatim>\<open>fini\<close> called (when there is
  one), with the tuner still active, and the tuner's state set to the state given.
\<close>

theorem unload_reports_then_finalizes:
  "bpftuner_fini None st s = Inr (None, s) \<and>
   (tuner_state t \<noteq> BPFTUNE_ACTIVE \<longrightarrow> bpftuner_fini (Some t) st s = Inr (Some t, s)) \<and>
   (tuner_state t = BPFTUNE_ACTIVE \<longrightarrow>
      bpftuner_fini (Some t) st s =
        Inr (Some (t\<lparr>tuner_state := st\<rparr>),
             s\<lparr>logged := logged s @
                  Log LOG_DEBUG (Cleaning_up (tuner_name t) (length (tunables t)) (length (scenarios t))) #
                  unload_report t @
                  (if tuner_fini t then [Called_fini (tuner_id t) BPFTUNE_ACTIVE] else [])\<rparr>))"
  by (simp add: bpftuner_fini_def Let_def fini_tunables_log unload_report_def bpftune_log_def)

theorem unload_reports_then_finalizes_witness:
  "tuner_state counted_tuner = BPFTUNE_ACTIVE \<and>
   bpftuner_fini (Some counted_tuner) BPFTUNE_INACTIVE example_host =
     Inr (Some (counted_tuner\<lparr>tuner_state := BPFTUNE_INACTIVE\<rparr>),
          example_host\<lparr>logged :=
            [Log LOG_DEBUG (Cleaning_up ''tcp_buffer'' 1 1),
             Log LOG_DEBUG (Checking_scenarios 0 0),
             Log LOG_INFO (Summary ''need to increase TCP buffer size'' 2 ''net.ipv4.tcp_rmem'' True
                             ''increase buffer size maximum''),
             Log LOG_INFO (Sysctl_changed ''net.ipv4.tcp_rmem'' [4096, 131072, 6291456]
                             [4096, 131072, 12582912]),
             Called_fini 0 BPFTUNE_ACTIVE]\<rparr>) \<and>
   tuner_state (counted_tuner\<lparr>tuner_state := BPFTUNE_INACTIVE\<rparr>) \<noteq> BPFTUNE_ACTIVE \<and>
   bpftuner_fini (Some (counted_tuner\<lparr>tuner_state := BPFTUNE_INACTIVE\<rparr>)) BPFTUNE_INACTIVE example_host =
     Inr (Some (counted_tuner\<lparr>tuner_state := BPFTUNE_INACTIVE\<rparr>), example_host)"
proof -
  have a: "tuner_state counted_tuner = BPFTUNE_ACTIVE"
    by (simp add: counted_tuner_def example_tuner_def)
  have b: "tuner_state (counted_tuner\<lparr>tuner_state := BPFTUNE_INACTIVE\<rparr>) \<noteq> BPFTUNE_ACTIVE"
    by simp
  have r: "unload_report counted_tuner =
      [Log LOG_DEBUG (Checking_scenarios 0 0),
       Log LOG_INFO (Summary ''need to increase TCP buffer size'' 2 ''net.ipv4.tcp_rmem'' True
                       ''increase buffer size maximum''),
       Log LOG_INFO (Sysctl_changed ''net.ipv4.tcp_rmem'' [4096, 131072, 6291456]
                       [4096, 131072, 12582912])]"
    by (simp add: unload_report_def scenario_report_def summary_lines_def counted_tuner_def
          example_tuner_def example_tunable_def Let_def upt_conv_Cons)
  have f: "tuner_fini counted_tuner" "tuner_name counted_tuner = ''tcp_buffer''"
    "tuner_id counted_tuner = 0" "length (tunables counted_tuner) = 1"
    "length (scenarios counted_tuner) = 1" "logged example_host = []"
    by (simp_all add: counted_tuner_def example_tuner_def example_host_def)
  note t = unload_reports_then_finalizes
  from t [of BPFTUNE_INACTIVE example_host counted_tuner] a
  have 1: "bpftuner_fini (Some counted_tuner) BPFTUNE_INACTIVE example_host =
        Inr (Some (counted_tuner\<lparr>tuner_state := BPFTUNE_INACTIVE\<rparr>),
             example_host\<lparr>logged := logged example_host @
                  Log LOG_DEBUG (Cleaning_up (tuner_name counted_tuner) (length (tunables counted_tuner))
                     (length (scenarios counted_tuner))) #
                  unload_report counted_tuner @
                  (if tuner_fini counted_tuner then [Called_fini (tuner_id counted_tuner) BPFTUNE_ACTIVE] else [])\<rparr>)"
    by blast
  from t [of BPFTUNE_INACTIVE example_host "counted_tuner\<lparr>tuner_state := BPFTUNE_INACTIVE\<rparr>"] b
  have 2: "bpftuner_fini (Some (counted_tuner\<lparr>tuner_state := BPFTUNE_INACTIVE\<rparr>)) BPFTUNE_INACTIVE example_host =
     Inr (Some (counted_tuner\<lparr>tuner_state := BPFTUNE_INACTIVE\<rparr>), example_host)"
    by blast
  from a b 1 2 show ?thesis by (simp add: r f)
qed

section \<open>Per-tuner namespace state: properties\<close>

lemma find_netns_None: "find_netns cookie cs pos = None \<Longrightarrow> cookie \<notin> set cs"
  by (induction cs arbitrary: pos) (auto split: if_splits)

lemma each_tuner_from_cookie_None:
  "each_tuner_from_cookie i tid cookie s = None \<Longrightarrow> i \<le> p \<Longrightarrow> p < bpftune_num_tuners s \<Longrightarrow>
   tuner_id (bpftune_tuners s ! p) = tid \<Longrightarrow>
   cookie \<notin> set (netns_nodes (bpftune_tuners s ! p))"
proof (induction i tid cookie s rule: each_tuner_from_cookie.induct)
  case (1 i tid cookie s)
  from "1.prems" have lt: "i < bpftune_num_tuners s" by simp
  then have tn: "bpftune_tuner s i = Some (bpftune_tuners s ! i)"
    by (simp add: bpftune_tuner_def)
  let ?t = "bpftune_tuners s ! i"
  show ?case
  proof (cases "tuner_id ?t \<noteq> tid")
    case True
    then have ne: "i \<noteq> p" using "1.prems" by auto
    from "1.prems"(1) True tn have "each_tuner_from_cookie (Suc i) tid cookie s = None"
      by (subst (asm) each_tuner_from_cookie.simps) simp
    from "1.IH"(1) [OF tn True this] ne "1.prems" show ?thesis by simp
  next
    case False
    from "1.prems"(1) False tn have c0: "cookie \<noteq> 0"
      by (subst (asm) each_tuner_from_cookie.simps) (simp split: if_splits)
    from "1.prems"(1) False tn c0 have fn: "find_netns cookie (netns_nodes ?t) 0 = None"
      and rest: "each_tuner_from_cookie (Suc i) tid cookie s = None"
      by (subst (asm) each_tuner_from_cookie.simps, simp split: option.splits)+
    show ?thesis
    proof (cases "i = p")
      case True
      with fn show ?thesis by (simp add: find_netns_None)
    next
      case ne: False
      from "1.IH"(2) [OF tn _ c0 fn rest] False ne "1.prems" show ?thesis by simp
    qed
  qed
qed

lemma cookies_unique_update:
  "cookies_unique s \<Longrightarrow> distinct (netns_nodes t) \<Longrightarrow>
   cookies_unique (s\<lparr>bpftune_tuners := (bpftune_tuners s)[p := t]\<rparr>)"
  using set_update_subset_insert [of "bpftune_tuners s" p t]
  by (auto simp: cookies_unique_def list_all_iff)

lemma cookies_unique_nth:
  "cookies_unique s \<Longrightarrow> p < bpftune_num_tuners s \<Longrightarrow> distinct (netns_nodes (bpftune_tuners s ! p))"
  by (simp add: cookies_unique_def list_all_length bpftune_num_tuners_def)

lemma cookies_unique_log: "cookies_unique (bpftune_log l m s) = cookies_unique s"
  by (simp add: cookies_unique_def bpftune_log_def)

lemma netns_init_unique:
  assumes sup: "netns_cookie_supported s" and p: "p < bpftune_num_tuners s"
    and u: "cookies_unique s"
  shows "cookies_unique (bpftuner_netns_init p cookie s)"
proof (cases "each_tuner_from_cookie 0 (tuner_id (bpftune_tuners s ! p)) cookie s")
  case (Some node)
  with sup u show ?thesis
    by (simp add: bpftuner_netns_init_def bpftuner_netns_from_cookie_def)
next
  case None
  from each_tuner_from_cookie_None [OF None _ p] have
    notin: "cookie \<notin> set (netns_nodes (bpftune_tuners s ! p))" by simp
  let ?t = "bpftune_tuners s ! p"
  have "distinct (netns_nodes (?t\<lparr>netns_next := netns_next ?t @ [cookie]\<rparr>))"
    using cookies_unique_nth [OF u p] notin by (auto simp: netns_nodes_def)
  from cookies_unique_update [OF u this, of p] u sup None show ?thesis
    by (simp add: bpftuner_netns_init_def bpftuner_netns_from_cookie_def bpftune_log_def
          cookies_unique_def)
qed

lemma unlink_netns_Some:
  "unlink_netns cookie cs = Some rest \<Longrightarrow> set rest \<subseteq> set cs \<and> (distinct cs \<longrightarrow> distinct rest)"
  by (induction cs arbitrary: rest) (auto split: if_splits)

lemma netns_fini_unique:
  assumes p: "p < bpftune_num_tuners s" and u: "cookies_unique s"
  shows "cookies_unique (bpftuner_netns_fini p cookie s)"
proof -
  let ?t = "bpftune_tuners s ! p"
  have d: "distinct (netns_nodes ?t)" by (rule cookies_unique_nth [OF u p])
  have "distinct (netns_nodes (?t\<lparr>netns_next := rest\<rparr>))"
    if "unlink_netns cookie (netns_next ?t) = Some rest" for rest
    using unlink_netns_Some [OF that] d by (auto simp: netns_nodes_def)
  then show ?thesis
    using u cookies_unique_update [OF u, of _ p]
    by (auto simp: bpftuner_netns_fini_def Let_def cookies_unique_log split: option.splits)
qed

lemma netns_op_frame:
  "netns_cookie_supported (apply_netns_op op s) = netns_cookie_supported s \<and>
   bpftune_num_tuners (apply_netns_op op s) = bpftune_num_tuners s"
  by (cases op)
     (auto simp: bpftuner_netns_init_def bpftuner_netns_fini_def bpftuner_netns_from_cookie_def
        bpftune_log_def bpftune_num_tuners_def Let_def split: option.splits)

text \<open>
  C8, amended. While namespace cookies are supported, any sequence of
  \<^verbatim>\<open>bpftuner_netns_init\<close> and \<^verbatim>\<open>bpftuner_netns_fini\<close> calls on registered tuners keeps the
  cookies of every tuner's namespace list distinct.
\<close>

theorem netns_cookies_stay_unique:
  "netns_cookie_supported s \<and> cookies_unique s \<and> ops_on_registered ops s \<longrightarrow>
   cookies_unique (apply_netns_ops ops s)"
proof (induction ops arbitrary: s)
  case Nil
  show ?case by simp
next
  case (Cons op ops)
  show ?case
  proof
    assume h: "netns_cookie_supported s \<and> cookies_unique s \<and> ops_on_registered (op # ops) s"
    then have p: "netns_op_tuner op < bpftune_num_tuners s"
      and rest: "ops_on_registered ops (apply_netns_op op s)"
      using netns_op_frame [of op s] by (simp_all add: ops_on_registered_def)
    have "cookies_unique (apply_netns_op op s)"
      using h p by (cases op) (simp_all add: netns_init_unique netns_fini_unique)
    with Cons.IH [of "apply_netns_op op s"] rest h netns_op_frame [of op s]
    show "cookies_unique (apply_netns_ops (op # ops) s)" by simp
  qed
qed

theorem netns_cookies_stay_unique_witness:
  "netns_cookie_supported example_host \<and> cookies_unique example_host \<and>
   ops_on_registered [Netns_init 0 7, Netns_init 0 7, Netns_init 0 9, Netns_fini 0 7, Netns_init 0 9, Netns_init 0 0]
     example_host \<and>
   cookies_unique (apply_netns_ops
     [Netns_init 0 7, Netns_init 0 7, Netns_init 0 9, Netns_fini 0 7, Netns_init 0 9, Netns_init 0 0] example_host) \<and>
   map netns_nodes (bpftune_tuners (apply_netns_ops
     [Netns_init 0 7, Netns_init 0 7, Netns_init 0 9, Netns_fini 0 7, Netns_init 0 9, Netns_init 0 0] example_host)) =
     [[0, 9]]"
proof -
  have h: "netns_cookie_supported example_host \<and> cookies_unique example_host \<and>
     ops_on_registered [Netns_init 0 7, Netns_init 0 7, Netns_init 0 9, Netns_fini 0 7, Netns_init 0 9, Netns_init 0 0]
       example_host"
    by code_simp
  have v: "map netns_nodes (bpftune_tuners (apply_netns_ops
     [Netns_init 0 7, Netns_init 0 7, Netns_init 0 9, Netns_fini 0 7, Netns_init 0 9, Netns_init 0 0] example_host)) =
     [[0, 9]]"
    by code_simp
  from netns_cookies_stay_unique [of example_host
      "[Netns_init 0 7, Netns_init 0 7, Netns_init 0 9, Netns_fini 0 7, Netns_init 0 9, Netns_init 0 0]"] h v
  show ?thesis by blast
qed

text \<open>
  C8, as stated, fails: the claim is that per-namespace initialisation never produces
  two entries for one cookie. \<^verbatim>\<open>bpftuner_netns_from_cookie\<close> returns NULL whenever
  \<^verbatim>\<open>netns_cookie_supported\<close> is not set, so that \<^verbatim>\<open>bpftuner_netns_init\<close> then appends a
  node on every call: two calls with cookie 7 leave the list 0, 7, 7.
\<close>

theorem netns_init_twice_when_unsupported:
  "cookies_unique unsupported_host \<and>
   map netns_nodes (bpftune_tuners (bpftuner_netns_init 0 7 (bpftuner_netns_init 0 7 unsupported_host))) =
     [[0, 7, 7]] \<and>
   \<not> cookies_unique (bpftuner_netns_init 0 7 (bpftuner_netns_init 0 7 unsupported_host))"
  by code_simp

end
